theory Spec2Isabelle
  imports Complex_Main
begin

section \<open>The VideoFeed component: data\<close>

text \<open>
  The repository has two variants of the React component \<open>VideoFeed\<close>: the capture
  variant (camera stream, animation-frame loop, \<open>src/unnamed/part_000\<close>) and the
  remote-stream variant (\<open>img\<close> element polled by a 100 ms timer,
  \<open>dashboard/src/components/VideoFeed.tsx\<close>). One record holds what an instance of
  either variant reads and writes: the React state, the elements behind the refs, the
  other refs, and the part of the browser the code talks to. JavaScript numbers that the
  code only counts or compares (frame counter, clock readings in milliseconds, pixel
  sizes) are integers here.
\<close>

text \<open>
  A JavaScript value as \<open>response.json()\<close> can give it (any JSON value: the
  TypeScript interfaces are gone at run time), or \<open>undefined\<close>. An object is the list
  of its own properties; the first entry of a key counts.
\<close>

datatype js =
    Undefined
  | Null
  | Bool bool
  | Num real
  | Str string
  | Arr "js list"
  | Obj "(string \<times> js) list"

text \<open>
  Reading one of the properties \<open>detail\<close>, \<open>detections\<close>, \<open>processed_image\<close>:
  a \<open>TypeError\<close> (\<open>None\<close>) on \<open>null\<close> and \<open>undefined\<close>, \<open>undefined\<close> where
  the value has no such property.
\<close>

fun read_prop :: "js \<Rightarrow> string \<Rightarrow> js option" where
  "read_prop Undefined k = None"
| "read_prop Null k = None"
| "read_prop (Obj fs) k = Some (case map_of fs k of None \<Rightarrow> Undefined | Some v \<Rightarrow> v)"
| "read_prop v k = Some Undefined"

text \<open>Truthiness, as \<open>||\<close> tests it.\<close>

fun js_truthy :: "js \<Rightarrow> bool" where
  "js_truthy Undefined = False"
| "js_truthy Null = False"
| "js_truthy (Bool b) = b"
| "js_truthy (Num r) = (r \<noteq> 0)"
| "js_truthy (Str s) = (s \<noteq> [])"
| "js_truthy v = True"

text \<open>
  Whether the conversion to a string succeeds. A parsed object converts (to
  \<open>[object Object]\<close>) unless it has an own property \<open>toString\<close>, which is not
  callable and leaves only \<open>valueOf\<close>, which returns the object: a \<open>TypeError\<close>.
  An array converts by joining the conversions of its elements.
\<close>

fun convertible :: "js \<Rightarrow> bool" where
  "convertible (Arr vs) = list_all convertible vs"
| "convertible (Obj fs) = (map_of fs ''toString'' = None)"
| "convertible v = True"

text \<open>
  Whether the conversion gives the empty string: for the empty string, and for an array
  that is empty or has one element that is \<open>null\<close>, \<open>undefined\<close> or converts to the
  empty string.
\<close>

fun renders_empty :: "js \<Rightarrow> bool" where
  "renders_empty (Str s) = (s = [])"
| "renders_empty (Arr []) = True"
| "renders_empty (Arr [v]) = (v = Undefined \<or> v = Null \<or> renders_empty v)"
| "renders_empty v = False"

text \<open>
  The text of an error message. Texts that the JavaScript engine makes are kept as what
  they are the text of: the conversion of a value to a string, and the messages of the
  \<open>TypeError\<close>s thrown at a read of a property of \<open>null\<close> and at a conversion that
  fails.
\<close>

datatype message =
    Msg string
  | StringOf js
  | TypeErrorReading string
  | TypeErrorConverting

text \<open>The message of \<open>new Error(v)\<close>, for a value that is not \<open>undefined\<close>.\<close>

definition new_Error :: "js \<Rightarrow> message" where
  "new_Error v =
     (case v of
        Str s \<Rightarrow> Msg s
      | _ \<Rightarrow> if convertible v then StringOf v else TypeErrorConverting)"

record canvas =
  width :: nat
  height :: nat
  ctx2d :: bool  \<comment> \<open>whether \<open>getContext('2d')\<close> returns a context\<close>

text \<open>
  A value thrown by the environment (by \<open>fetch\<close>, by \<open>toDataURL\<close>): an \<open>Error\<close>
  object with its message, or anything else.
\<close>

datatype thrown = ErrorObj string | NonError

text \<open>
  What \<open>await response.json()\<close> yields: it rejects with a \<open>SyntaxError\<close> (an
  \<open>Error\<close>, here with its message) when the body is not JSON, and otherwise gives the
  parsed value.
\<close>

datatype body = NotJson string | Parsed js

text \<open>How \<open>await fetch(...)\<close> settles: rejected, or a response with its \<open>ok\<close> flag.\<close>

datatype fetch_outcome = Rejected thrown | Responded bool body

text \<open>The calls the component makes, in the order it makes them.\<close>

datatype effect =
    SetIsProcessing bool
  | SetDetections js
  | SetError "message option"
  | ConsoleError
  | Fetch string
  | CanvasResize nat nat
  | DrawImage
  | LoadAnnotated js
  | RequestAnimationFrame nat
  | CancelAnimationFrame nat
  | StopTracks
  | ClearInterval

text \<open>The three \<open>useState\<close> cells.\<close>

record hooks =
  h_detections :: js
  h_isProcessing :: bool
  h_error :: "message option"

text \<open>
  React keeps the state of a component while it is mounted, and attaches the refs of
  rendered elements for that time. At unmount the state is gone, calls of its setters are
  dropped, and \<open>imgRef.current\<close> and \<open>canvasRef.current\<close> are \<open>null\<close>; the
  elements themselves, and the refs made by \<open>useRef\<close> with a value, live on in the
  closures that hold them.
\<close>

record feed =
  react :: "hooks option"                 \<comment> \<open>\<open>None\<close>: not mounted\<close>
  imgEl :: "(nat \<times> nat) option"          \<comment> \<open>the \<open>img\<close> rendered, with its natural width and height\<close>
  canvasEl :: "canvas option"             \<comment> \<open>the \<open>canvas\<close> rendered, if one is\<close>
  frameCountRef :: nat
  lastDetectionRef :: int
  animationFrameRef :: nat
  streamRef :: "bool list option"         \<comment> \<open>the stream's tracks, \<open>True\<close> while live\<close>
  video :: "nat \<times> nat"                   \<comment> \<open>\<open>videoWidth\<close>, \<open>videoHeight\<close>\<close>
  gumPending :: bool                      \<comment> \<open>\<open>getUserMedia\<close> called, not settled\<close>
  rafQueue :: "nat list"                  \<comment> \<open>handles of the scheduled \<open>drawFrame\<close> callbacks\<close>
  rafIssued :: nat                        \<comment> \<open>last handle the browser gave out\<close>
  interval :: bool                        \<comment> \<open>the 100 ms timer is running\<close>
  outstanding :: nat                      \<comment> \<open>fetches sent and not settled\<close>
  sent :: "(int \<times> string) list"          \<comment> \<open>every request sent: clock reading, payload\<close>
  trace :: "effect list"

definition detections :: "feed \<Rightarrow> js option" where
  "detections st = map_option h_detections (react st)"

definition isProcessing :: "feed \<Rightarrow> bool" where
  "isProcessing st = (case react st of None \<Rightarrow> False | Some h \<Rightarrow> h_isProcessing h)"

definition error :: "feed \<Rightarrow> message option" where
  "error st = (case react st of None \<Rightarrow> None | Some h \<Rightarrow> h_error h)"

definition imgRef :: "feed \<Rightarrow> (nat \<times> nat) option" where
  "imgRef st = (if react st = None then None else imgEl st)"

definition canvasRef :: "feed \<Rightarrow> canvas option" where
  "canvasRef st = (if react st = None then None else canvasEl st)"

text \<open>The values of the first render: the arguments of \<open>useState\<close> and \<open>useRef\<close>.\<close>

definition initial :: feed where
  "initial =
     \<lparr>react = Some \<lparr>h_detections = Arr [], h_isProcessing = False, h_error = None\<rparr>,
      imgEl = None, canvasEl = None, frameCountRef = 0, lastDetectionRef = 0,
      animationFrameRef = 0, streamRef = None, video = (0, 0), gumPending = False,
      rafQueue = [], rafIssued = 0, interval = False, outstanding = 0, sent = [],
      trace = []\<rparr>"

section \<open>React and browser primitives\<close>

definition emit :: "effect \<Rightarrow> feed \<Rightarrow> feed" where
  "emit e st = st\<lparr>trace := trace st @ [e]\<rparr>"

definition setIsProcessing :: "bool \<Rightarrow> feed \<Rightarrow> feed" where
  "setIsProcessing b st =
     emit (SetIsProcessing b)
       (st\<lparr>react := map_option (\<lambda>h. h\<lparr>h_isProcessing := b\<rparr>) (react st)\<rparr>)"

definition setDetections :: "js \<Rightarrow> feed \<Rightarrow> feed" where
  "setDetections ds st =
     emit (SetDetections ds)
       (st\<lparr>react := map_option (\<lambda>h. h\<lparr>h_detections := ds\<rparr>) (react st)\<rparr>)"

definition setError :: "message option \<Rightarrow> feed \<Rightarrow> feed" where
  "setError e st =
     emit (SetError e) (st\<lparr>react := map_option (\<lambda>h. h\<lparr>h_error := e\<rparr>) (react st)\<rparr>)"

definition fetch :: "int \<Rightarrow> string \<Rightarrow> feed \<Rightarrow> feed" where
  "fetch t payload st =
     emit (Fetch payload)
       (st\<lparr>outstanding := Suc (outstanding st), sent := sent st @ [(t, payload)]\<rparr>)"

definition requestAnimationFrame :: "feed \<Rightarrow> feed" where
  "requestAnimationFrame st =
     (let h = Suc (rafIssued st)
      in emit (RequestAnimationFrame h)
           (st\<lparr>rafIssued := h, rafQueue := rafQueue st @ [h], animationFrameRef := h\<rparr>))"

definition cancelAnimationFrame :: "nat \<Rightarrow> feed \<Rightarrow> feed" where
  "cancelAnimationFrame h st =
     emit (CancelAnimationFrame h) (st\<lparr>rafQueue := removeAll h (rafQueue st)\<rparr>)"

definition stopTracks :: "feed \<Rightarrow> feed" where
  "stopTracks st =
     (case streamRef st of
        None \<Rightarrow> st
      | Some ts \<Rightarrow> emit StopTracks (st\<lparr>streamRef := Some (map (\<lambda>_. False) ts)\<rparr>))"

text \<open>Truthiness of the \<open>error\<close> state, a string or \<open>null\<close>.\<close>

definition truthy :: "message option \<Rightarrow> bool" where
  "truthy v =
     (case v of
        None \<Rightarrow> False
      | Some (Msg s) \<Rightarrow> s \<noteq> []
      | Some (StringOf w) \<Rightarrow> \<not> renders_empty w
      | Some m \<Rightarrow> True)"

section \<open>What a render closes over\<close>

text \<open>
  \<open>processFrame\<close> is created anew by every render and reads \<open>isProcessing\<close> and
  \<open>error\<close> as the constants that render got from \<open>useState\<close>. The effect that starts
  the timer (remote-stream variant) or the animation-frame loop (capture variant) has the
  dependency list \<open>[]\<close>: it runs once, after the first render, and the
  \<open>processFrame\<close> it holds is the one of that render. The refs, in contrast, are
  objects shared by all renders and are read from the current state.
\<close>

record closure =
  c_isProcessing :: bool
  c_error :: "message option"

definition render :: "feed \<Rightarrow> closure" where
  "render st = \<lparr>c_isProcessing = isProcessing st, c_error = error st\<rparr>"

definition mount_closure :: closure where
  "mount_closure = render initial"

section \<open>processFrame: from the response to the end\<close>

text \<open>
  The \<open>catch\<close> and \<open>finally\<close> blocks and the code between \<open>await fetch\<close> and
  them are the same text in both files, but for the annotated image, which only the
  remote-stream variant loads (and reads from the result before \<open>detections\<close>).
\<close>

text \<open>The \<open>catch\<close> block on an \<open>Error\<close> with the given message.\<close>

definition caught :: "message \<Rightarrow> feed \<Rightarrow> feed" where
  "caught m st = setError (Some m) (emit ConsoleError st)"

definition catch_block :: "thrown \<Rightarrow> feed \<Rightarrow> feed" where
  "catch_block e st =
     caught (case e of ErrorObj m \<Rightarrow> Msg m | NonError \<Rightarrow> Msg ''Failed to process frame'') st"

definition finally_block :: "feed \<Rightarrow> feed" where
  "finally_block st = setIsProcessing False st"

text \<open>\<open>throw new Error(errorData.detail || 'Detection failed')\<close>, in the \<open>try\<close>.\<close>

definition throw_detail :: "js \<Rightarrow> feed \<Rightarrow> feed" where
  "throw_detail errorData st =
     (case read_prop errorData ''detail'' of
        None \<Rightarrow> caught (TypeErrorReading ''detail'') st
      | Some d \<Rightarrow> caught (new_Error (if js_truthy d then d else Str ''Detection failed'')) st)"

text \<open>The lines after \<open>const result = await response.json()\<close>, in the \<open>try\<close>.\<close>

definition use_result :: "bool \<Rightarrow> js \<Rightarrow> feed \<Rightarrow> feed" where
  "use_result annotated result st =
     (if annotated then
        (case read_prop result ''processed_image'' of
           None \<Rightarrow> caught (TypeErrorReading ''processed_image'') st
         | Some im \<Rightarrow>
             if convertible im
             then setDetections (case read_prop result ''detections'' of None \<Rightarrow> Undefined | Some ds \<Rightarrow> ds)
                    (emit (LoadAnnotated im) st)
             else caught TypeErrorConverting st)
      else
        (case read_prop result ''detections'' of
           None \<Rightarrow> caught (TypeErrorReading ''detections'') st
         | Some ds \<Rightarrow> setDetections ds st))"

definition after_fetch :: "bool \<Rightarrow> fetch_outcome \<Rightarrow> feed \<Rightarrow> feed" where
  "after_fetch annotated out st =
     (case out of
        Rejected e \<Rightarrow> finally_block (catch_block e st)
      | Responded ok b \<Rightarrow>
          (case b of
             NotJson m \<Rightarrow> finally_block (catch_block (ErrorObj m) st)
           | Parsed v \<Rightarrow>
               if \<not> ok then finally_block (throw_detail v st)
               else finally_block (use_result annotated v st)))"

text \<open>The settling of one outstanding fetch resumes the \<open>processFrame\<close> that sent it.\<close>

definition settle :: "bool \<Rightarrow> fetch_outcome \<Rightarrow> feed \<Rightarrow> feed" where
  "settle annotated out st =
     (if outstanding st = 0 then st
      else after_fetch annotated out (st\<lparr>outstanding := outstanding st - 1\<rparr>))"

section \<open>The capture variant\<close>

text \<open>
  What one call of \<open>drawFrame\<close> reads from the browser: whether the video has enough
  data, \<open>Date.now()\<close> in \<open>drawFrame\<close>, \<open>Date.now()\<close> in \<open>processFrame\<close>, and
  what \<open>toDataURL(...).split(',')[1]\<close> gives (a payload, or an exception).
\<close>

record frame_in =
  ready :: bool
  now_draw :: int
  now_issue :: int
  encoded :: "thrown + string"

text \<open>
  The \<open>loadedmetadata\<close> listener; \<open>canvas\<close> is the element that the effect read from
  \<open>canvasRef\<close> when it ran.
\<close>

definition updateCanvasSize :: "feed \<Rightarrow> feed" where
  "updateCanvasSize st =
     (case canvasEl st of
        None \<Rightarrow> st
      | Some cv \<Rightarrow>
          if fst (video st) \<noteq> 0 \<and> snd (video st) \<noteq> 0
          then emit (CanvasResize (fst (video st)) (snd (video st)))
                 (st\<lparr>canvasEl := Some (cv\<lparr>width := fst (video st), height := snd (video st)\<rparr>)\<rparr>)
          else st)"

definition capture_processFrame :: "closure \<Rightarrow> frame_in \<Rightarrow> feed \<Rightarrow> feed" where
  "capture_processFrame cl env st =
     (if canvasRef st = None \<or> c_isProcessing cl then st
      else
        (let st1 = setIsProcessing True st;
             st2 = st1\<lparr>lastDetectionRef := now_issue env\<rparr>
         in case encoded env of
              Inl e \<Rightarrow> finally_block (catch_block e st2)
            | Inr payload \<Rightarrow> fetch (now_issue env) payload st2))"

definition drawFrame :: "closure \<Rightarrow> frame_in \<Rightarrow> feed \<Rightarrow> feed" where
  "drawFrame cl env st =
     (if ready env then
        (let st1 = emit DrawImage st;
             st2 = st1\<lparr>frameCountRef := Suc (frameCountRef st1)\<rparr>;
             st3 = (if frameCountRef st2 mod 5 = 0
                       \<and> now_draw env - lastDetectionRef st2 > 500
                    then capture_processFrame cl env st2 else st2)
         in requestAnimationFrame st3)
      else st)"

text \<open>
  The effect of the capture variant. It returns at once unless both refs are attached and
  the canvas gives a context; otherwise it calls \<open>setupStream\<close>, which first awaits
  \<open>getUserMedia\<close>.
\<close>

definition capture_effect :: "feed \<Rightarrow> feed" where
  "capture_effect st =
     (case (imgRef st, canvasRef st) of
        (Some im, Some cv) \<Rightarrow> if ctx2d cv then st\<lparr>gumPending := True\<rparr> else st
      | _ \<Rightarrow> st)"

text \<open>
  The capture variant renders a hidden \<open>img\<close> and a \<open>canvas\<close> (300 by 150 until
  sized); both refs are attached when the effect runs.
\<close>

definition capture_mount :: feed where
  "capture_mount =
     capture_effect
       (initial\<lparr>imgEl := Some (0, 0),
                canvasEl := Some \<lparr>width = 300, height = 150, ctx2d = True\<rparr>\<rparr>)"

text \<open>
  \<open>setupStream\<close> after \<open>getUserMedia\<close> resolved, up to its first \<open>drawFrame()\<close>.
  That call is made in the same synchronous run as \<open>video.srcObject = stream\<close> and
  \<open>video.play()\<close>; what it reads as \<open>readyState\<close> comes with the event (see
  \<open>browser_event\<close> below for what a browser reports there).
\<close>

definition setupStream_granted :: "closure \<Rightarrow> bool list \<Rightarrow> frame_in \<Rightarrow> feed \<Rightarrow> feed" where
  "setupStream_granted cl tracks env st =
     drawFrame cl env (st\<lparr>gumPending := False, streamRef := Some tracks\<rparr>)"

text \<open>\<open>setupStream\<close> after \<open>getUserMedia\<close> rejected.\<close>

definition setupStream_denied :: "feed \<Rightarrow> feed" where
  "setupStream_denied st =
     setError (Some (Msg ''Failed to access camera''))
       (emit ConsoleError (st\<lparr>gumPending := False\<rparr>))"

text \<open>
  The function that \<open>setupStream\<close> returns on success. \<open>setupStream\<close> is
  \<open>async\<close>, so the function is the value of a promise, and the effect calls
  \<open>setupStream()\<close> as a statement: nothing ever calls it.
\<close>

definition setupStream_returned :: "feed \<Rightarrow> feed" where
  "setupStream_returned st =
     stopTracks
       (if animationFrameRef st \<noteq> 0 then cancelAnimationFrame (animationFrameRef st) st
        else st)"

text \<open>The cleanup that the effect returns to React.\<close>

definition capture_cleanup :: "feed \<Rightarrow> feed" where
  "capture_cleanup st = stopTracks st"

text \<open>
  Unmount: React runs the cleanup, drops the state and detaches the refs of the elements.
\<close>

definition capture_unmount :: "feed \<Rightarrow> feed" where
  "capture_unmount st =
     (if react st = None then st else (capture_cleanup st)\<lparr>react := None\<rparr>)"

datatype capture_event =
    StreamGranted "bool list" frame_in
  | StreamDenied
  | LoadedMetadata nat nat
  | VideoResized nat nat
  | AnimationFrame frame_in
  | Settled fetch_outcome
  | Unmount

fun capture_step :: "capture_event \<Rightarrow> feed \<Rightarrow> feed" where
  "capture_step (StreamGranted tracks env) st =
     (if gumPending st then setupStream_granted mount_closure tracks env st else st)"
| "capture_step StreamDenied st =
     (if gumPending st then setupStream_denied st else st)"
| "capture_step (LoadedMetadata w h) st =
     (if streamRef st = None then st else updateCanvasSize (st\<lparr>video := (w, h)\<rparr>))"
| "capture_step (VideoResized w h) st =
     (if streamRef st = None then st else st\<lparr>video := (w, h)\<rparr>)"
| "capture_step (AnimationFrame env) st =
     (case rafQueue st of
        [] \<Rightarrow> st
      | h # hs \<Rightarrow> drawFrame mount_closure env (st\<lparr>rafQueue := hs\<rparr>))"
| "capture_step (Settled out) st = settle False out st"
| "capture_step Unmount st = capture_unmount st"

fun capture_run :: "capture_event list \<Rightarrow> feed \<Rightarrow> feed" where
  "capture_run [] st = st"
| "capture_run (e # es) st = capture_run es (capture_step e st)"

text \<open>
  What a browser reports at the \<open>drawFrame()\<close> of \<open>setupStream\<close>: the media
  element has just been given its source in the same synchronous run, and its
  \<open>readyState\<close> is still \<open>HAVE_NOTHING\<close>.
\<close>

fun browser_event :: "capture_event \<Rightarrow> bool" where
  "browser_event (StreamGranted tracks env) = (\<not> ready env)"
| "browser_event e = True"

section \<open>The remote-stream variant\<close>

text \<open>
  What one call of \<open>processFrame\<close> by the timer reads from the browser: the wall-clock
  time of the tick (the code does not read it; it stamps the request in \<open>sent\<close>) and
  the result of \<open>toDataURL(...).split(',')[1]\<close>.
\<close>

record tick_in =
  tick_time :: int
  snapshot :: "thrown + string"

definition remote_processFrame :: "closure \<Rightarrow> tick_in \<Rightarrow> feed \<Rightarrow> feed" where
  "remote_processFrame cl env st =
     (case (imgRef st, canvasRef st) of
        (Some im, Some cv) \<Rightarrow>
          if c_isProcessing cl \<or> truthy (c_error cl) then st
          else
            (let st1 = setIsProcessing True st
             in if \<not> ctx2d cv then finally_block st1
                else if fst im \<noteq> 0 \<and> snd im \<noteq> 0 then
                  (let st2 = emit DrawImage
                               (emit (CanvasResize (fst im) (snd im))
                                  (st1\<lparr>canvasEl :=
                                         Some (cv\<lparr>width := fst im, height := snd im\<rparr>)\<rparr>))
                   in case snapshot env of
                        Inl e \<Rightarrow> finally_block (catch_block e st2)
                      | Inr payload \<Rightarrow> fetch (tick_time env) payload st2)
                else finally_block st1)
      | _ \<Rightarrow> st)"

text \<open>
  The remote-stream variant renders the \<open>img\<close> and no \<open>canvas\<close>: \<open>canvasRef\<close>
  stays \<open>null\<close>. Its effect starts the timer.
\<close>

definition remote_mount :: feed where
  "remote_mount = initial\<lparr>imgEl := Some (0, 0), interval := True\<rparr>"

definition remote_cleanup :: "feed \<Rightarrow> feed" where
  "remote_cleanup st = emit ClearInterval (st\<lparr>interval := False\<rparr>)"

definition remote_unmount :: "feed \<Rightarrow> feed" where
  "remote_unmount st =
     (if react st = None then st else (remote_cleanup st)\<lparr>react := None\<rparr>)"

text \<open>The handlers on the \<open>img\<close> element, the same in both files.\<close>

definition onLoad :: "feed \<Rightarrow> feed" where
  "onLoad st = setError None st"

definition onError :: "feed \<Rightarrow> feed" where
  "onError st = setError (Some (Msg ''Failed to load video stream'')) (emit ConsoleError st)"

datatype remote_event =
    TimerTick tick_in
  | ImgLoaded nat nat
  | ImgFailed
  | ImgResized nat nat
  | Responded_to fetch_outcome
  | Unmounted

fun remote_step :: "remote_event \<Rightarrow> feed \<Rightarrow> feed" where
  "remote_step (TimerTick env) st =
     (if interval st then remote_processFrame mount_closure env st else st)"
| "remote_step (ImgLoaded w h) st =
     (if imgRef st = None then st else onLoad (st\<lparr>imgEl := Some (w, h)\<rparr>))"
| "remote_step ImgFailed st = (if imgRef st = None then st else onError st)"
| "remote_step (ImgResized w h) st =
     (if imgRef st = None then st else st\<lparr>imgEl := Some (w, h)\<rparr>)"
| "remote_step (Responded_to out) st = settle True out st"
| "remote_step Unmounted st = remote_unmount st"

fun remote_run :: "remote_event list \<Rightarrow> feed \<Rightarrow> feed" where
  "remote_run [] st = st"
| "remote_run (e # es) st = remote_run es (remote_step e st)"

section \<open>What the component displays\<close>

text \<open>
  The block of labels in the JSX, \<open>detections.length > 0 && (... detections.map ...)\<close>,
  is an expression in \<open>detections\<close> alone. \<open>jsx\<close> stands for what React makes of it
  for a value of \<open>detections\<close> (the labels with \<open>Math.round(det.confidence * 100)\<close>
  in double arithmetic, nothing, or an exception), and for nothing displayed when the
  component is not mounted.
\<close>

definition overlay :: "(js option \<Rightarrow> 'v) \<Rightarrow> feed \<Rightarrow> 'v" where
  "overlay jsx st = jsx (detections st)"

section \<open>Observations on a run\<close>

text \<open>The calls made between two states of the same run.\<close>

definition since :: "feed \<Rightarrow> feed \<Rightarrow> effect list" where
  "since st st' = drop (length (trace st)) (trace st')"


text \<open>The clock readings with which the requests of a run were sent, oldest first.\<close>

definition issue_times :: "feed \<Rightarrow> int list" where
  "issue_times st = map fst (sent st)"

text \<open>Each reading is more than 500 ms after the one before it.\<close>

fun gaps_ok :: "int list \<Rightarrow> bool" where
  "gaps_ok (a # b # ts) = (b - a > 500 \<and> gaps_ok (b # ts))"
| "gaps_ok ts = True"

text \<open>
  Within one call of \<open>drawFrame\<close> the clock does not run backwards: the reading in
  \<open>processFrame\<close> is not before the reading in \<open>drawFrame\<close>.
\<close>

fun clock_ok :: "capture_event \<Rightarrow> bool" where
  "clock_ok (StreamGranted tracks env) = (now_draw env \<le> now_issue env)"
| "clock_ok (AnimationFrame env) = (now_draw env \<le> now_issue env)"
| "clock_ok e = True"

text \<open>
  The invariant of the capture variant: the requests are spaced, and the last of them was
  sent no later than \<open>lastDetectionRef\<close>.
\<close>

definition spaced :: "feed \<Rightarrow> bool" where
  "spaced st =
     (gaps_ok (issue_times st)
      \<and> (issue_times st = [] \<or> last (issue_times st) \<le> lastDetectionRef st))"



text \<open>The assignments of the canvas size among the calls made between two states.\<close>

definition resizes :: "feed \<Rightarrow> feed \<Rightarrow> effect list" where
  "resizes st st' =
     filter (\<lambda>e. case e of CanvasResize w h \<Rightarrow> True | _ \<Rightarrow> False) (since st st')"


section \<open>Concrete runs\<close>

definition frame_at :: "int \<Rightarrow> frame_in" where
  "frame_at t = \<lparr>ready = True, now_draw = t, now_issue = t, encoded = Inr ''/9j/4AAQ''\<rparr>"

definition stalled_at :: "int \<Rightarrow> frame_in" where
  "stalled_at t = (frame_at t)\<lparr>ready := False\<rparr>"

definition tick_at :: "int \<Rightarrow> tick_in" where
  "tick_at t = \<lparr>tick_time = t, snapshot = Inr ''/9j/4AAQ''\<rparr>"

definition person :: js where
  "person =
     Obj [(''class'', Str ''person''), (''confidence'', Num (87 / 100)),
          (''bbox'', Arr [Num 10, Num 20, Num 100, Num 200])]"

text \<open>
  Not a state of any run: \<open>VideoFeed.tsx\<close> renders no canvas. It is the remote-stream
  component with a canvas put behind \<open>canvasRef\<close>, to exercise the text of
  \<open>processFrame\<close> past its first line.
\<close>

definition with_canvas :: "feed \<Rightarrow> feed" where
  "with_canvas st = st\<lparr>canvasEl := Some \<lparr>width = 300, height = 150, ctx2d = True\<rparr>\<rparr>"

text \<open>
  A run on the assumption that the video has enough data at every call of
  \<open>drawFrame\<close>, the first included: the fifth frame drawn, at 1066 ms, sends the first
  request.
\<close>

definition until_first_request :: "capture_event list" where
  "until_first_request =
     [StreamGranted [True] (frame_at 1000), AnimationFrame (frame_at 1016),
      AnimationFrame (frame_at 1033), AnimationFrame (frame_at 1050),
      AnimationFrame (frame_at 1066)]"

text \<open>Five more frames are drawn, the tenth at 1600 ms.\<close>

definition until_tenth_frame :: "capture_event list" where
  "until_tenth_frame =
     [AnimationFrame (frame_at 1083), AnimationFrame (frame_at 1100),
      AnimationFrame (frame_at 1116), AnimationFrame (frame_at 1133),
      AnimationFrame (frame_at 1600)]"

text \<open>
  The camera is granted, as a browser reports it; the metadata load at 1280 by 720, and
  the video then has data at the times of two animation frames.
\<close>

definition browser_start :: "capture_event list" where
  "browser_start =
     [StreamGranted [True] (stalled_at 1000), LoadedMetadata 1280 720,
      AnimationFrame (frame_at 1016), AnimationFrame (frame_at 1033)]"

text \<open>The component is unmounted while the camera prompt is open; then access is granted.\<close>

definition late_grant :: "capture_event list" where
  "late_grant = [Unmount, StreamGranted [True] (stalled_at 1000)]"

text \<open>The remote image loads at 640 by 480 and four timer ticks pass.\<close>

definition four_ticks :: "remote_event list" where
  "four_ticks =
     [ImgLoaded 640 480, TimerTick (tick_at 100), TimerTick (tick_at 200),
      TimerTick (tick_at 300), TimerTick (tick_at 400)]"

text \<open>
  The camera is granted, as a browser reports it, and the metadata load at 1280 by 720.
\<close>

definition metadata_load :: "capture_event list" where
  "metadata_load = [StreamGranted [True] (stalled_at 1000), LoadedMetadata 1280 720]"

text \<open>The remote image changes from 640 by 480 to 1280 by 720 between two ticks.\<close>

definition resolution_switch :: "remote_event list" where
  "resolution_switch =
     [ImgLoaded 640 480, TimerTick (tick_at 100), ImgResized 1280 720,
      TimerTick (tick_at 200)]"


text \<open>The remote image fails to load, then loads.\<close>

definition reload :: "remote_event list" where
  "reload = [ImgFailed, ImgLoaded 640 480]"

section \<open>Helper facts\<close>

lemmas prims = emit_def setIsProcessing_def setDetections_def setError_def fetch_def
  requestAnimationFrame_def caught_def catch_block_def finally_block_def

lemmas cells = detections_def isProcessing_def error_def imgRef_def canvasRef_def

lemmas run_defs = capture_mount_def capture_effect_def initial_def mount_closure_def render_def
  setupStream_granted_def drawFrame_def capture_processFrame_def remote_processFrame_def
  remote_mount_def onLoad_def onError_def settle_def after_fetch_def throw_detail_def
  use_result_def new_Error_def truthy_def updateCanvasSize_def capture_unmount_def
  setupStream_denied_def
  capture_cleanup_def remote_unmount_def remote_cleanup_def stopTracks_def Let_def

lemmas scenario_defs = frame_at_def stalled_at_def tick_at_def with_canvas_def person_def
  until_first_request_def until_tenth_frame_def browser_start_def late_grant_def
  four_ticks_def reload_def metadata_load_def resolution_switch_def



lemma since_after_fetch:
  "since st (after_fetch a out st) =
     (case out of
        Rejected e \<Rightarrow>
          [ConsoleError,
           SetError (Some (case e of ErrorObj m \<Rightarrow> Msg m
                                   | NonError \<Rightarrow> Msg ''Failed to process frame'')),
           SetIsProcessing False]
      | Responded ok b \<Rightarrow>
         (case b of
            NotJson m \<Rightarrow> [ConsoleError, SetError (Some (Msg m)), SetIsProcessing False]
          | Parsed v \<Rightarrow>
              if \<not> ok then
                [ConsoleError,
                 SetError (Some (case read_prop v ''detail'' of
                                   None \<Rightarrow> TypeErrorReading ''detail''
                                 | Some d \<Rightarrow> new_Error (if js_truthy d then d
                                                          else Str ''Detection failed''))),
                 SetIsProcessing False]
              else if a then
                (case read_prop v ''processed_image'' of
                   None \<Rightarrow> [ConsoleError, SetError (Some (TypeErrorReading ''processed_image'')),
                            SetIsProcessing False]
                 | Some im \<Rightarrow>
                     if convertible im
                     then [LoadAnnotated im,
                           SetDetections (case read_prop v ''detections'' of
                                            None \<Rightarrow> Undefined | Some ds \<Rightarrow> ds),
                           SetIsProcessing False]
                     else [ConsoleError, SetError (Some TypeErrorConverting),
                           SetIsProcessing False])
              else
                (case read_prop v ''detections'' of
                   None \<Rightarrow> [ConsoleError, SetError (Some (TypeErrorReading ''detections'')),
                            SetIsProcessing False]
                 | Some ds \<Rightarrow> [SetDetections ds, SetIsProcessing False])))"
  by (simp add: since_def after_fetch_def throw_detail_def use_result_def prims
      split: fetch_outcome.split body.split thrown.split option.split)

lemma after_fetch_keeps:
  "sent (after_fetch a out st) = sent st"
  "lastDetectionRef (after_fetch a out st) = lastDetectionRef st"
  "rafQueue (after_fetch a out st) = rafQueue st"
  "canvasEl (after_fetch a out st) = canvasEl st"
  by (simp_all add: after_fetch_def throw_detail_def use_result_def prims
      split: fetch_outcome.split body.split option.split)

lemma after_fetch_resets: "\<not> isProcessing (after_fetch a out st)"
  by (cases "react st")
     (simp_all add: isProcessing_def after_fetch_def throw_detail_def use_result_def prims
       split: fetch_outcome.split body.split option.split)

text \<open>
  With the closure of the current render the guard of \<open>processFrame\<close> does what it
  reads: nothing happens while \<open>isProcessing\<close> is true. The closure that the timer and
  the frame loop hold is the one of the first render, and never blocks.
\<close>

lemma current_render_guard:
  "isProcessing st \<Longrightarrow> capture_processFrame (render st) env st = st"
  "isProcessing st \<Longrightarrow> remote_processFrame (render st) tk st = st"
  by (simp_all add: capture_processFrame_def remote_processFrame_def render_def
      split: option.split)

lemma mount_closure_open:
  "\<not> c_isProcessing mount_closure" "\<not> truthy (c_error mount_closure)"
  by (simp_all add: mount_closure_def render_def initial_def truthy_def cells)


lemma capture_run_append: "capture_run (xs @ ys) st = capture_run ys (capture_run xs st)"
  by (induction xs arbitrary: st) simp_all

subsection \<open>The remote-stream variant sends nothing\<close>




subsection \<open>The frame loop of the capture variant does not start in a browser\<close>






subsection \<open>The spacing invariant of the capture variant\<close>

lemma gaps_ok_snoc:
  "gaps_ok (ts @ [t]) = (gaps_ok ts \<and> (ts = [] \<or> t - last ts > 500))"
  by (induction ts rule: gaps_ok.induct) auto

lemma settle_spaced: "spaced st \<Longrightarrow> spaced (settle a out st)"
  by (simp add: spaced_def issue_times_def settle_def after_fetch_keeps)

lemma processFrame_spaced:
  assumes "spaced st" and "t - lastDetectionRef st > 500" and "t \<le> now_issue env"
  shows "spaced (capture_processFrame cl env st)"
  using assms
  by (auto simp: spaced_def issue_times_def capture_processFrame_def prims Let_def
      gaps_ok_snoc split: sum.splits)

lemma drawFrame_spaced:
  assumes "spaced st" and "now_draw env \<le> now_issue env"
  shows "spaced (drawFrame cl env st)"
proof (cases "ready env \<and> Suc (frameCountRef st) mod 5 = 0
    \<and> now_draw env - lastDetectionRef st > 500")
  case True
  let ?counted = "(emit DrawImage st)\<lparr>frameCountRef := Suc (frameCountRef st)\<rparr>"
  have "spaced ?counted"
    using assms(1) by (simp add: spaced_def issue_times_def emit_def)
  moreover have "now_draw env - lastDetectionRef ?counted > 500"
    using True by (simp add: emit_def)
  ultimately have "spaced (capture_processFrame cl env ?counted)"
    using assms(2) by (rule processFrame_spaced)
  then have "spaced (requestAnimationFrame (capture_processFrame cl env ?counted))"
    by (simp add: spaced_def issue_times_def requestAnimationFrame_def emit_def Let_def)
  moreover have "drawFrame cl env st
      = requestAnimationFrame (capture_processFrame cl env ?counted)"
    using True by (simp add: drawFrame_def Let_def emit_def)
  ultimately show ?thesis by simp
next
  case False
  then show ?thesis
    using assms(1)
    by (auto simp: drawFrame_def Let_def spaced_def issue_times_def
        requestAnimationFrame_def emit_def)
qed

lemma updateCanvasSize_spaced: "spaced st \<Longrightarrow> spaced (updateCanvasSize st)"
  by (simp add: spaced_def issue_times_def updateCanvasSize_def emit_def split: option.splits)

lemma unmount_spaced: "spaced st \<Longrightarrow> spaced (capture_unmount st)"
  by (simp add: spaced_def issue_times_def capture_unmount_def capture_cleanup_def
      stopTracks_def emit_def split: option.splits)

lemma step_spaced:
  assumes "spaced st" and "clock_ok e"
  shows "spaced (capture_step e st)"
proof (cases e)
  case (StreamGranted tracks env)
  have "spaced (st\<lparr>gumPending := False, streamRef := Some tracks\<rparr>)"
    using assms(1) by (simp add: spaced_def issue_times_def)
  then show ?thesis
    using assms StreamGranted by (simp add: setupStream_granted_def drawFrame_spaced)
next
  case StreamDenied
  then show ?thesis
    using assms(1) by (simp add: setupStream_denied_def spaced_def issue_times_def prims)
next
  case (LoadedMetadata w h)
  have "spaced (st\<lparr>video := (w, h)\<rparr>)"
    using assms(1) by (simp add: spaced_def issue_times_def)
  then show ?thesis
    using assms(1) LoadedMetadata by (simp add: updateCanvasSize_spaced)
next
  case (VideoResized w h)
  then show ?thesis
    using assms(1) by (simp add: spaced_def issue_times_def)
next
  case (AnimationFrame env)
  show ?thesis
  proof (cases "rafQueue st")
    case Nil
    then show ?thesis using assms(1) AnimationFrame by simp
  next
    case (Cons h hs)
    have "spaced (st\<lparr>rafQueue := hs\<rparr>)"
      using assms(1) by (simp add: spaced_def issue_times_def)
    then show ?thesis
      using assms(2) AnimationFrame Cons by (simp add: drawFrame_spaced)
  qed
next
  case (Settled out)
  then show ?thesis using assms(1) by (simp add: settle_spaced)
next
  case Unmount
  then show ?thesis using assms(1) by (simp add: unmount_spaced)
qed

lemma run_spaced:
  "spaced st \<Longrightarrow> list_all clock_ok evs \<Longrightarrow> spaced (capture_run evs st)"
  by (induction evs arbitrary: st) (simp_all add: step_spaced)

lemma mount_spaced: "spaced capture_mount"
  by (simp add: spaced_def issue_times_def capture_mount_def capture_effect_def initial_def
      cells)

subsection \<open>Teardown\<close>

text \<open>
  The function that \<open>setupStream\<close> returns would cancel the scheduled callback; the
  cleanup that React runs does not touch the queue. After unmount the timer of the
  remote-stream variant is cancelled, the tracks of a stream that \<open>streamRef\<close> holds
  are stopped, and the state is gone: a request that settles later changes none of it.
\<close>

lemma setupStream_returned_cancels:
  "animationFrameRef st \<noteq> 0 \<Longrightarrow>
     animationFrameRef st \<notin> set (rafQueue (setupStream_returned st))"
  by (simp add: setupStream_returned_def cancelAnimationFrame_def stopTracks_def emit_def
      split: option.split)

lemma capture_cleanup_keeps_queue: "rafQueue (capture_cleanup st) = rafQueue st"
  by (simp add: capture_cleanup_def stopTracks_def emit_def split: option.split)

lemma unmount_releases:
  "react st \<noteq> None \<Longrightarrow> interval (remote_unmount st) = False"
  "react st \<noteq> None \<Longrightarrow>
     streamRef (capture_unmount st) = map_option (map (\<lambda>live. False)) (streamRef st)"
  "react (capture_unmount st) = None"
  "react (remote_unmount st) = None"
  by (auto simp: remote_unmount_def remote_cleanup_def capture_unmount_def
      capture_cleanup_def stopTracks_def emit_def split: option.split)

lemma settle_after_unmount:
  "react st = None \<Longrightarrow> react (settle a out st) = None"
  by (simp add: settle_def after_fetch_def throw_detail_def use_result_def prims
      split: fetch_outcome.split body.split option.split)

text \<open>
  Once the component is unmounted and \<open>getUserMedia\<close> has settled, nothing writes
  \<open>streamRef\<close> or stops its tracks.
\<close>

lemma step_after_unmount:
  assumes "react st = None" and "\<not> gumPending st"
  shows "react (capture_step e st) = None \<and> \<not> gumPending (capture_step e st)
    \<and> streamRef (capture_step e st) = streamRef st"
proof (cases e)
  case (AnimationFrame env)
  then show ?thesis
    using assms
    by (cases "encoded env")
       (simp_all add: drawFrame_def capture_processFrame_def canvasRef_def prims Let_def
         split: list.split)
next
  case (Settled out)
  then show ?thesis
    using assms
    by (simp add: settle_def after_fetch_def throw_detail_def use_result_def prims
        split: fetch_outcome.split body.split option.split)
next
  case (LoadedMetadata w h)
  then show ?thesis
    using assms by (simp add: updateCanvasSize_def emit_def split: option.split)
qed (use assms in \<open>simp_all add: capture_unmount_def\<close>)

lemma track_never_stopped:
  "react st = None \<Longrightarrow> \<not> gumPending st \<Longrightarrow>
     streamRef (capture_run evs st) = streamRef st"
proof (induction evs arbitrary: st)
  case Nil
  then show ?case by simp
next
  case (Cons e evs)
  from step_after_unmount [OF Cons.prems, of e] Cons.IH [of "capture_step e st"]
  show ?case by simp
qed

section \<open>At most one request in flight\<close>



section \<open>The in-flight flag around one request\<close>

text \<open>
  C2. For every request that \<open>processFrame\<close> sends, in either variant,
  \<open>setIsProcessing(true)\<close> is the first call made and precedes the \<open>fetch\<close> in the
  same synchronous run, which leaves \<open>isProcessing\<close> true; and however the fetch
  settles (rejected, a response that is not ok, a body that is not JSON, or success) the
  rest of \<open>processFrame\<close> calls \<open>setIsProcessing(false)\<close> exactly once, as its last
  call, never \<open>setIsProcessing(true)\<close>, and leaves \<open>isProcessing\<close> false.
\<close>

theorem in_flight_set_then_reset_once:
  "(Fetch p \<in> set (since st (capture_processFrame cl env st)) \<longrightarrow>
      since st (capture_processFrame cl env st) = [SetIsProcessing True, Fetch p]
      \<and> isProcessing (capture_processFrame cl env st))
   \<and> (Fetch q \<in> set (since rs (remote_processFrame cl tk rs)) \<longrightarrow>
      (\<exists>w h. since rs (remote_processFrame cl tk rs)
               = [SetIsProcessing True, CanvasResize w h, DrawImage, Fetch q])
      \<and> isProcessing (remote_processFrame cl tk rs))
   \<and> count_list (since s (after_fetch a out s)) (SetIsProcessing False) = 1
   \<and> count_list (since s (after_fetch a out s)) (SetIsProcessing True) = 0
   \<and> last (since s (after_fetch a out s)) = SetIsProcessing False
   \<and> \<not> isProcessing (after_fetch a out s)"
proof -
  have capture: "Fetch p \<in> set (since st (capture_processFrame cl env st)) \<longrightarrow>
      since st (capture_processFrame cl env st) = [SetIsProcessing True, Fetch p]
      \<and> isProcessing (capture_processFrame cl env st)"
    by (auto simp: since_def capture_processFrame_def prims cells Let_def
        split: if_splits sum.splits thrown.splits option.splits)
  have remote: "Fetch q \<in> set (since rs (remote_processFrame cl tk rs)) \<longrightarrow>
      (\<exists>w h. since rs (remote_processFrame cl tk rs)
               = [SetIsProcessing True, CanvasResize w h, DrawImage, Fetch q])
      \<and> isProcessing (remote_processFrame cl tk rs)"
    by (auto simp: since_def remote_processFrame_def prims cells Let_def
        split: if_splits sum.splits thrown.splits option.splits)
  have calls: "count_list (since s (after_fetch a out s)) (SetIsProcessing False) = 1
      \<and> count_list (since s (after_fetch a out s)) (SetIsProcessing True) = 0
      \<and> last (since s (after_fetch a out s)) = SetIsProcessing False"
    by (simp add: since_after_fetch
        split: fetch_outcome.split body.split thrown.split option.split)
  have flag: "\<not> isProcessing (after_fetch a out s)"
    by (rule after_fetch_resets)
  from capture remote calls flag show ?thesis by blast
qed

theorem in_flight_set_then_reset_once_witness:
  "Fetch ''/9j/4AAQ''
     \<in> set (since capture_mount
              (capture_processFrame mount_closure (frame_at 1000) capture_mount))
   \<and> since capture_mount (capture_processFrame mount_closure (frame_at 1000) capture_mount)
       = [SetIsProcessing True, Fetch ''/9j/4AAQ'']
   \<and> Fetch ''/9j/4AAQ''
     \<in> set (since (remote_run [ImgLoaded 640 480] (with_canvas remote_mount))
              (remote_processFrame mount_closure (tick_at 1000)
                 (remote_run [ImgLoaded 640 480] (with_canvas remote_mount))))
   \<and> isProcessing
       (remote_processFrame mount_closure (tick_at 1000)
          (remote_run [ImgLoaded 640 480] (with_canvas remote_mount)))
   \<and> last (since capture_mount
             (after_fetch False (Responded False (NotJson ''<html>'')) capture_mount))
       = SetIsProcessing False"
  using in_flight_set_then_reset_once
    [of "''/9j/4AAQ''" capture_mount mount_closure "frame_at 1000" "''/9j/4AAQ''"
        "remote_run [ImgLoaded 640 480] (with_canvas remote_mount)" "tick_at 1000"
        capture_mount False "Responded False (NotJson ''<html>'')"]
  by (simp add: since_def scenario_defs run_defs prims cells)

section \<open>Which frames are sampled\<close>



section \<open>Teardown\<close>

text \<open>
  C4. The claim: teardown releases the capture device's tracks. When the component is
  unmounted before \<open>getUserMedia\<close> has resolved, the cleanup finds
  \<open>streamRef.current\<close> empty and stops nothing; the stream that arrives afterwards is
  stored and played, its track stays live, and no later event stops it.
\<close>

theorem track_lingers_after_teardown:
  "react (capture_run late_grant capture_mount) = None
   \<and> streamRef (capture_run late_grant capture_mount) = Some [True]
   \<and> trace (capture_run late_grant capture_mount) = []"
  by (simp add: scenario_defs run_defs prims cells)

section \<open>A failed request keeps the detections\<close>

text \<open>
  C5. When a request fails (the fetch is rejected, the response is not ok, or the body of
  an ok response is not JSON or is \<open>null\<close>) the detections of the last successful
  request are unchanged, and so is the list of labels displayed.
\<close>

theorem failure_keeps_detections:
  "detections (after_fetch a (Rejected e) st) = detections st
   \<and> detections (after_fetch a (Responded False b) st) = detections st
   \<and> detections (after_fetch a (Responded True (NotJson m)) st) = detections st
   \<and> detections (after_fetch a (Responded True (Parsed Null)) st) = detections st
   \<and> overlay jsx (after_fetch a (Rejected e) st) = overlay jsx st
   \<and> overlay jsx (after_fetch a (Responded False b) st) = overlay jsx st
   \<and> overlay jsx (after_fetch a (Responded True (NotJson m)) st) = overlay jsx st
   \<and> overlay jsx (after_fetch a (Responded True (Parsed Null)) st) = overlay jsx st"
proof -
  have "detections (after_fetch a (Rejected e) st) = detections st"
    and "detections (after_fetch a (Responded False b) st) = detections st"
    and "detections (after_fetch a (Responded True (NotJson m)) st) = detections st"
    and "detections (after_fetch a (Responded True (Parsed Null)) st) = detections st"
    by (cases "react st";
        simp add: detections_def after_fetch_def throw_detail_def use_result_def prims
          split: body.split option.split)+
  then show ?thesis by (simp add: overlay_def)
qed

section \<open>The message of a response that is not ok\<close>



section \<open>The display loop\<close>

text \<open>
  C7. The claim: on every tick the loop draws a frame and re-schedules itself
  unconditionally. Both the drawing and the \<open>requestAnimationFrame\<close> are inside
  \<open>if (video.readyState === video.HAVE_ENOUGH_DATA && ctx)\<close>. The first call of
  \<open>drawFrame\<close>, made by \<open>setupStream\<close>, finds the video without data: nothing is
  drawn and nothing is scheduled, and when the video has data later no callback is there
  to draw it.
\<close>

theorem display_loop_never_starts:
  "list_all browser_event browser_start
   \<and> trace (capture_run browser_start capture_mount) = [CanvasResize 1280 720]
   \<and> rafQueue (capture_run browser_start capture_mount) = []"
  by (simp add: scenario_defs run_defs prims cells)

section \<open>Clearing the error\<close>




section \<open>The size of the drawing surface\<close>

text \<open>
  C9. The claim: when the source's natural dimensions change, the surface gets the new
  dimensions on the first frame after the change and at no other time. In the capture
  variant the canvas goes from 300 by 150 to 1280 by 720 when the metadata of the video
  load, in a run in which no frame is drawn. In the remote-stream variant the image goes
  from 640 by 480 to 1280 by 720 between two timer ticks, and nothing is sized at the
  tick after the change: there is no canvas.
\<close>

theorem surface_sized_apart_from_frames:
  "canvasEl (capture_run (butlast metadata_load) capture_mount)
     = Some \<lparr>width = 300, height = 150, ctx2d = True\<rparr>
   \<and> canvasEl (capture_run metadata_load capture_mount)
     = Some \<lparr>width = 1280, height = 720, ctx2d = True\<rparr>
   \<and> trace (capture_run metadata_load capture_mount) = [CanvasResize 1280 720]
   \<and> imgEl (remote_run resolution_switch remote_mount) = Some (1280, 720)
   \<and> canvasEl (remote_run resolution_switch remote_mount) = None
   \<and> trace (remote_run resolution_switch remote_mount) = [SetError None]"
  by (simp add: scenario_defs run_defs prims cells)

text \<open>
  C9, amended. In the capture variant the only event that changes the surface's width
  and height is \<open>loadedmetadata\<close>: once the stream is held, its handler
  \<open>updateCanvasSize\<close> assigns them from the video's dimensions when both are not zero,
  each time the event comes; no other event does, and \<open>drawFrame\<close> does not, whatever
  closure it runs in. In the remote-stream variant the only event that changes them is a
  call of \<open>processFrame\<close>: a call that finds image and canvas attached, the
  \<open>isProcessing\<close> and \<open>error\<close> that it reads false and empty, a context and natural
  dimensions that are not zero assigns them from the natural dimensions, changed or not,
  once in each such call.
\<close>

theorem surface_size_assignment:
  "canvasEl (capture_step e st)
     = (case e of
          LoadedMetadata w h \<Rightarrow>
            (case canvasEl st of
               None \<Rightarrow> None
             | Some cv \<Rightarrow>
                 Some (if streamRef st \<noteq> None \<and> w \<noteq> 0 \<and> h \<noteq> 0
                       then cv\<lparr>width := w, height := h\<rparr> else cv))
        | _ \<Rightarrow> canvasEl st)
   \<and> resizes st (capture_step e st)
     = (case e of
          LoadedMetadata w h \<Rightarrow>
            if streamRef st \<noteq> None \<and> canvasEl st \<noteq> None \<and> w \<noteq> 0 \<and> h \<noteq> 0
            then [CanvasResize w h] else []
        | _ \<Rightarrow> [])
   \<and> canvasEl (drawFrame cl env st) = canvasEl st
   \<and> resizes st (drawFrame cl env st) = []
   \<and> canvasEl (remote_processFrame cl tk rs)
     = (case (imgRef rs, canvasRef rs) of
          (Some im, Some cv) \<Rightarrow>
            if \<not> c_isProcessing cl \<and> \<not> truthy (c_error cl) \<and> ctx2d cv
               \<and> fst im \<noteq> 0 \<and> snd im \<noteq> 0
            then Some (cv\<lparr>width := fst im, height := snd im\<rparr>) else canvasEl rs
        | _ \<Rightarrow> canvasEl rs)
   \<and> resizes rs (remote_processFrame cl tk rs)
     = (case (imgRef rs, canvasRef rs) of
          (Some im, Some cv) \<Rightarrow>
            if \<not> c_isProcessing cl \<and> \<not> truthy (c_error cl) \<and> ctx2d cv
               \<and> fst im \<noteq> 0 \<and> snd im \<noteq> 0
            then [CanvasResize (fst im) (snd im)] else []
        | _ \<Rightarrow> [])
   \<and> (case re of
         TimerTick t \<Rightarrow> True
       | _ \<Rightarrow> canvasEl (remote_step re rs) = canvasEl rs \<and> resizes rs (remote_step re rs) = [])"
proof -
  have draw: "canvasEl (drawFrame c f s) = canvasEl s \<and> resizes s (drawFrame c f s) = []"
    for c f s
    by (cases "encoded f")
       (simp_all add: resizes_def since_def drawFrame_def capture_processFrame_def prims
         Let_def)
  have settled: "canvasEl (settle b out s) = canvasEl s \<and> resizes s (settle b out s) = []"
    for b out s
    by (simp add: resizes_def settle_def after_fetch_keeps since_after_fetch [unfolded since_def]
        since_def after_fetch_def throw_detail_def use_result_def prims
        split: fetch_outcome.split body.split option.split thrown.split)
  have capture: "canvasEl (capture_step e st)
     = (case e of
          LoadedMetadata w h \<Rightarrow>
            (case canvasEl st of
               None \<Rightarrow> None
             | Some cv \<Rightarrow>
                 Some (if streamRef st \<noteq> None \<and> w \<noteq> 0 \<and> h \<noteq> 0
                       then cv\<lparr>width := w, height := h\<rparr> else cv))
        | _ \<Rightarrow> canvasEl st)
   \<and> resizes st (capture_step e st)
     = (case e of
          LoadedMetadata w h \<Rightarrow>
            if streamRef st \<noteq> None \<and> canvasEl st \<noteq> None \<and> w \<noteq> 0 \<and> h \<noteq> 0
            then [CanvasResize w h] else []
        | _ \<Rightarrow> [])"
  proof (cases e)
    case (StreamGranted tracks f)
    then show ?thesis
      using draw [of mount_closure f "st\<lparr>gumPending := False, streamRef := Some tracks\<rparr>"]
      by (simp add: setupStream_granted_def resizes_def since_def)
  next
    case StreamDenied
    then show ?thesis by (simp add: resizes_def since_def setupStream_denied_def prims)
  next
    case (LoadedMetadata w h)
    then show ?thesis
      by (auto simp: resizes_def since_def updateCanvasSize_def emit_def split: option.split)
  next
    case (VideoResized w h)
    then show ?thesis by (simp add: resizes_def since_def)
  next
    case (AnimationFrame f)
    show ?thesis
    proof (cases "rafQueue st")
      case Nil
      then show ?thesis using AnimationFrame by (simp add: resizes_def since_def)
    next
      case (Cons h hs)
      then show ?thesis
        using AnimationFrame draw [of mount_closure f "st\<lparr>rafQueue := hs\<rparr>"]
        by (simp add: resizes_def since_def)
    qed
  next
    case (Settled out)
    then show ?thesis using settled [of False out st] by simp
  next
    case Unmount
    then show ?thesis
      by (simp add: resizes_def since_def capture_unmount_def capture_cleanup_def
          stopTracks_def emit_def split: option.split)
  qed
  have remote: "canvasEl (remote_processFrame cl tk rs)
     = (case (imgRef rs, canvasRef rs) of
          (Some im, Some cv) \<Rightarrow>
            if \<not> c_isProcessing cl \<and> \<not> truthy (c_error cl) \<and> ctx2d cv
               \<and> fst im \<noteq> 0 \<and> snd im \<noteq> 0
            then Some (cv\<lparr>width := fst im, height := snd im\<rparr>) else canvasEl rs
        | _ \<Rightarrow> canvasEl rs)
   \<and> resizes rs (remote_processFrame cl tk rs)
     = (case (imgRef rs, canvasRef rs) of
          (Some im, Some cv) \<Rightarrow>
            if \<not> c_isProcessing cl \<and> \<not> truthy (c_error cl) \<and> ctx2d cv
               \<and> fst im \<noteq> 0 \<and> snd im \<noteq> 0
            then [CanvasResize (fst im) (snd im)] else []
        | _ \<Rightarrow> [])"
    by (cases "snapshot tk")
       (auto simp: resizes_def since_def remote_processFrame_def cells prims Let_def
         split: option.split)
  have others: "(case re of
         TimerTick t \<Rightarrow> True
       | _ \<Rightarrow> canvasEl (remote_step re rs) = canvasEl rs \<and> resizes rs (remote_step re rs) = [])"
  proof (cases re)
    case (Responded_to out)
    then show ?thesis using settled [of True out rs] by simp
  qed (simp_all add: resizes_def since_def onLoad_def onError_def remote_unmount_def
        remote_cleanup_def prims)
  from capture draw remote others show ?thesis by simp
qed

section \<open>The gap between two requests of the capture variant\<close>

text \<open>
  C10. In the capture variant, over every sequence of events from mount in which the
  clock does not run backwards inside a call of \<open>drawFrame\<close>, any two consecutive
  requests are sent more than 500 ms apart. \<open>lastDetectionRef\<close> is written when the
  request is sent and by nothing that runs when it is answered, so a request that fails
  delays the next one as much as one that succeeds.
\<close>

theorem issue_times_spaced:
  assumes "list_all clock_ok evs"
  shows "gaps_ok (issue_times (capture_run evs capture_mount))
    \<and> lastDetectionRef (settle a out st) = lastDetectionRef st"
proof -
  have "spaced (capture_run evs capture_mount)"
    using mount_spaced assms by (rule run_spaced)
  then have "gaps_ok (issue_times (capture_run evs capture_mount))"
    by (simp add: spaced_def)
  moreover have "lastDetectionRef (settle a out st) = lastDetectionRef st"
    by (simp add: settle_def after_fetch_keeps)
  ultimately show ?thesis by simp
qed

theorem issue_times_spaced_witness:
  "list_all clock_ok
     (until_first_request @ [Settled (Rejected (ErrorObj ''Failed to fetch''))]
        @ until_tenth_frame)
   \<and> issue_times
       (capture_run
          (until_first_request @ [Settled (Rejected (ErrorObj ''Failed to fetch''))]
             @ until_tenth_frame)
          capture_mount)
     = [1066, 1600]
   \<and> gaps_ok
       (issue_times
          (capture_run
             (until_first_request @ [Settled (Rejected (ErrorObj ''Failed to fetch''))]
                @ until_tenth_frame)
             capture_mount))"
  using issue_times_spaced
    [of "until_first_request @ [Settled (Rejected (ErrorObj ''Failed to fetch''))]
           @ until_tenth_frame"]
  by (simp add: issue_times_def scenario_defs run_defs prims cells)

end
